theory Spec2Isabelle
  imports Main "HOL-Library.Product_Lexorder"
begin

section \<open>Strings, character classes and the regular expressions of \<open>main.py\<close>\<close>

text \<open>
  A Python \<open>str\<close> is a sequence of Unicode code points, so a string is a list of
  code points here (\<open>py ''abc''\<close> turns an ASCII literal into one). Two character
  classes of the Python runtime are used by the program and they differ:
  \<^item> \<open>\d\<close> of module \<open>re\<close> on a \<open>str\<close> pattern matches the code points for which
    \<open>str.isdecimal\<close> holds (general category Nd). They come in runs of ten, digit
    zero first; \<open>nd_zeros\<close> lists the zero of every run (Unicode 14.0.0, the database
    of CPython 3.11).
  \<^item> \<open>str.isdigit\<close> accepts more: the decimals and the code points of numeric type
    Digit (superscripts, circled digits, ...), listed in \<open>digit_extra\<close> as ranges.
\<close>

type_synonym codepoint = nat
type_synonym pystr = "codepoint list"

definition py :: "string \<Rightarrow> pystr" where
  "py s = map of_char s"

definition nd_zeros :: "codepoint list" where
  "nd_zeros = [48, 1632, 1776, 1984, 2406, 2534, 2662, 2790, 2918, 3046, 3174, 3302,
     3430, 3558, 3664, 3792, 3872, 4160, 4240, 6112, 6160, 6470, 6608, 6784, 6800, 6992,
     7088, 7232, 7248, 42528, 43216, 43264, 43472, 43504, 43600, 44016, 65296, 66720,
     68912, 69734, 69872, 69942, 70096, 70384, 70736, 70864, 71248, 71360, 71472, 71904,
     72016, 72784, 73040, 73120, 92768, 92864, 93008, 120782, 120792, 120802, 120812,
     120822, 123200, 123632, 125264, 130032]"

definition digit_extra :: "(codepoint \<times> codepoint) list" where
  "digit_extra = [(178, 179), (185, 185), (4969, 4977), (6618, 6618), (8304, 8304),
     (8308, 8313), (8320, 8329), (9312, 9320), (9332, 9340), (9352, 9360), (9450, 9450),
     (9461, 9469), (9471, 9471), (10102, 10110), (10112, 10120), (10122, 10130),
     (68160, 68163), (69216, 69224), (69714, 69722), (127232, 127242)]"

text \<open>\<open>decimal_value c\<close> is \<open>unicodedata.decimal\<close>: the value of a decimal digit.\<close>

definition decimal_value :: "codepoint \<Rightarrow> nat option" where
  "decimal_value c =
     (case filter (\<lambda>z. z \<le> c \<and> c < z + 10) nd_zeros of
        [] \<Rightarrow> None
      | z # _ \<Rightarrow> Some (c - z))"

definition isdecimal_cp :: "codepoint \<Rightarrow> bool" where
  "isdecimal_cp c = (decimal_value c \<noteq> None)"

definition isdigit_cp :: "codepoint \<Rightarrow> bool" where
  "isdigit_cp c = (isdecimal_cp c \<or> list_ex (\<lambda>(lo, hi). lo \<le> c \<and> c \<le> hi) digit_extra)"

text \<open>\<open>s.isdigit()\<close>: every character is a digit and there is at least one.\<close>

definition isdigit :: "pystr \<Rightarrow> bool" where
  "isdigit s = (s \<noteq> [] \<and> list_all isdigit_cp s)"

text \<open>
  \<open>int(s)\<close> in base ten. White space around the number is dropped (the code points of
  \<open>int_space\<close>: the ASCII white space and the white space beyond ASCII), one sign may
  come first, and the digits may be any decimal digits, with single underscores
  between them. Anything else makes \<open>int\<close> raise \<open>ValueError\<close>; that is \<open>None\<close> here.
  Code points: 43 is \<open>+\<close>, 45 is \<open>-\<close>, 95 is the underscore.
\<close>

definition int_space :: "codepoint \<Rightarrow> bool" where
  "int_space c = (c \<in> set [9, 10, 11, 12, 13, 32, 133, 160, 5760, 8192, 8193, 8194, 8195,
     8196, 8197, 8198, 8199, 8200, 8201, 8202, 8232, 8233, 8239, 8287, 12288])"

definition strip :: "pystr \<Rightarrow> pystr" where
  "strip s = rev (dropWhile int_space (rev (dropWhile int_space s)))"

text \<open>\<open>int_digits after_digit acc s\<close>: the digits read so far are worth \<open>acc\<close>.\<close>

fun int_digits :: "bool \<Rightarrow> nat \<Rightarrow> pystr \<Rightarrow> nat option" where
  "int_digits after_digit acc [] = (if after_digit then Some acc else None)"
| "int_digits after_digit acc (c # cs) =
     (if c = 95 then (if after_digit \<and> cs \<noteq> [] then int_digits False acc cs else None)
      else (case decimal_value c of
              None \<Rightarrow> None
            | Some v \<Rightarrow> int_digits True (10 * acc + v) cs))"

definition py_int :: "pystr \<Rightarrow> int option" where
  "py_int s =
     (case strip s of
        [] \<Rightarrow> None
      | c # cs \<Rightarrow>
          if c = 43 then map_option int (int_digits False 0 cs)
          else if c = 45 then map_option (\<lambda>n. - int n) (int_digits False 0 cs)
          else map_option int (int_digits False 0 (c # cs)))"

text \<open>
  The regular expressions of the program and of \<open>strptime\<close> use a character class,
  concatenation, alternation, named groups, the anchors \<open>^\<close> and \<open>$\<close>, and \<open>{n}\<close>,
  which is the n-fold concatenation (\<open>rep\<close>). \<open>rx_run\<close> is the backtracking matcher of
  \<open>re\<close>: from a state (characters consumed so far, rest of the subject, groups
  captured so far) it returns every way the expression can match, as the states after
  the match, in the order in which \<open>re\<close> tries them. Without \<open>re.MULTILINE\<close>, \<open>^\<close>
  matches at position 0 only and \<open>$\<close> matches at the end of the subject and also just
  before a line feed (code point 10) that is its last character.
\<close>

datatype rx =
    Cls "codepoint \<Rightarrow> bool"
  | Eps
  | Cat rx rx
  | Alt rx rx
  | Grp string rx
  | Bol
  | Eol

type_synonym mstate = "nat \<times> pystr \<times> (string \<times> pystr) list"

fun rx_run :: "rx \<Rightarrow> mstate \<Rightarrow> mstate list" where
  "rx_run (Cls P) (i, [], g) = []"
| "rx_run (Cls P) (i, c # cs, g) = (if P c then [(Suc i, cs, g)] else [])"
| "rx_run Eps st = [st]"
| "rx_run (Cat a b) st = concat (map (rx_run b) (rx_run a st))"
| "rx_run (Alt a b) st = rx_run a st @ rx_run b st"
| "rx_run (Grp k a) (i, s, g) =
     map (\<lambda>(j, r, g'). (j, r, g' @ [(k, take (j - i) s)])) (rx_run a (i, s, g))"
| "rx_run Bol (i, s, g) = (if i = 0 then [(i, s, g)] else [])"
| "rx_run Eol (i, s, g) = (if s = [] \<or> s = [10] then [(i, s, g)] else [])"

fun rep :: "nat \<Rightarrow> rx \<Rightarrow> rx" where
  "rep 0 a = Eps"
| "rep (Suc n) a = Cat a (rep n a)"

text \<open>\<open>re.match(p, s)\<close> tries the pattern at the start of \<open>s\<close>; the first way is the match.\<close>

definition re_match :: "rx \<Rightarrow> pystr \<Rightarrow> mstate option" where
  "re_match p s = (case rx_run p (0, s, []) of [] \<Rightarrow> None | m # _ \<Rightarrow> Some m)"

definition lit :: "codepoint \<Rightarrow> rx" where
  "lit k = Cls (\<lambda>c. c = k)"

definition range :: "codepoint \<Rightarrow> codepoint \<Rightarrow> rx" where
  "range lo hi = Cls (\<lambda>c. lo \<le> c \<and> c \<le> hi)"

abbreviation digit :: rx where
  "digit \<equiv> Cls isdecimal_cp"

text \<open>\<open>r'^\d{10}$'\<close> and \<open>r'^\d{2}\.\d{2}\.\d{4}$'\<close>; code point 46 is the full stop.\<close>

definition phone_re :: rx where
  "phone_re = Cat Bol (Cat (rep 10 digit) Eol)"

definition birthday_re :: rx where
  "birthday_re =
     Cat Bol (Cat (rep 2 digit) (Cat (lit 46) (Cat (rep 2 digit) (Cat (lit 46)
       (Cat (rep 4 digit) Eol)))))"

section \<open>Exceptions, console output and the \<open>input_error\<close> decorator\<close>

datatype exn = ValueError | TypeError | AttributeError

text \<open>
  Every \<open>print\<close> of the program is one constructor, which carries the values the
  f-string interpolates:
  \<^item> \<open>Name_empty\<close>: "Name cannot be empty."
  \<^item> \<open>Phone_10_digits\<close>: "Phone number must be 10 digits."
  \<^item> \<open>Deleted name\<close>: "Contact '{name}' deleted successfully."
  \<^item> \<open>Contact_not_found\<close>: "Contact not found."
  \<^item> \<open>Invalid_format\<close>: "Invalid date format. Use DD.MM.YYYY"
  \<^item> \<open>Invalid_date\<close>: "Invalid date. Please enter a valid date."
  \<^item> \<open>Birthday_added name\<close>: "Birthday added for contact '{name}'."
  \<^item> \<open>Birthday_is name text\<close>: "{name}'s birthday is on {birthday}"
  \<^item> \<open>Birthday_info_not_found\<close>: "Birthday information not found."
  \<^item> \<open>Error_processing name\<close>: "Error processing birthday for {name}. Invalid date format."
  \<^item> \<open>Upcoming name (y, m, d)\<close>: "{name}'s birthday is on {date:%Y-%m-%d}"
  \<^item> \<open>Phone_updated name\<close>: "Phone number for contact '{name}' updated successfully."
\<close>

datatype msg =
    Name_empty
  | Phone_10_digits
  | Deleted pystr
  | Contact_not_found
  | Invalid_format
  | Invalid_date
  | Birthday_added pystr
  | Birthday_is pystr pystr
  | Birthday_info_not_found
  | Error_processing pystr
  | Upcoming pystr "int \<times> int \<times> int"
  | Phone_updated pystr

text \<open>
  A call runs on a state (the object or the address book it mutates), prints lines and
  then returns a value or raises: the state after the call, the lines, the outcome.
\<close>

type_synonym ('s, 'a) run = "'s \<times> msg list \<times> (exn + 'a)"

text \<open>
  \<open>input_error(message)(func)\<close>: the wrapper returns what \<open>func\<close> returns; when \<open>func\<close>
  raises \<open>ValueError\<close> or \<open>TypeError\<close> it prints \<open>message\<close> and returns \<open>None\<close>
  (here: no value); any other exception passes through. What \<open>func\<close> did to the state
  before it raised stays done.
\<close>

definition input_error :: "msg \<Rightarrow> ('s, 'a) run \<Rightarrow> ('s, 'a option) run" where
  "input_error message r =
     (case r of
        (s, out, Inr v) \<Rightarrow> (s, out, Inr (Some v))
      | (s, out, Inl e) \<Rightarrow>
          if e = ValueError \<or> e = TypeError then (s, out @ [message], Inr None)
          else (s, out, Inl e))"

section \<open>Fields\<close>

text \<open>
  A \<open>Field\<close> object has the one attribute \<open>value\<close>, set by \<open>Field.__init__\<close>. An object
  whose \<open>__init__\<close> was cut short exists without the attribute: that is \<open>None\<close>, and
  reading \<open>.value\<close> from it raises \<open>AttributeError\<close>.
\<close>

type_synonym field = "pystr option"

definition Field_init :: "field \<Rightarrow> pystr \<Rightarrow> (field, unit) run" where
  "Field_init self v = (Some v, [], Inr ())"

definition get_value :: "field \<Rightarrow> exn + pystr" where
  "get_value f = (case f of None \<Rightarrow> Inl AttributeError | Some v \<Rightarrow> Inr v)"

text \<open>
  \<open>Name.__init__\<close> and \<open>Phone.__init__\<close>, decorated, and the constructor calls
  \<open>Name(value)\<close> and \<open>Phone(value)\<close>: a fresh object without attributes, \<open>__init__\<close> on
  it, and the object is the value of the call unless \<open>__init__\<close> raised.
\<close>

definition Name_init :: "field \<Rightarrow> pystr \<Rightarrow> (field, unit option) run" where
  "Name_init self v =
     input_error Name_empty
       (if v = [] then (self, [], Inl ValueError) else Field_init self v)"

definition Name :: "pystr \<Rightarrow> (unit, field) run" where
  "Name v =
     (case Name_init None v of
        (self, out, Inr _) \<Rightarrow> ((), out, Inr self)
      | (self, out, Inl e) \<Rightarrow> ((), out, Inl e))"

text \<open>The check of \<open>Phone.__init__\<close>: \<open>re.match(r'^\d{10}$', value)\<close> is not \<open>None\<close>.\<close>

definition validate_phone :: "pystr \<Rightarrow> bool" where
  "validate_phone v = (re_match phone_re v \<noteq> None)"

definition Phone_init :: "field \<Rightarrow> pystr \<Rightarrow> (field, unit option) run" where
  "Phone_init self v =
     input_error Phone_10_digits
       (if \<not> validate_phone v then (self, [], Inl ValueError) else Field_init self v)"

definition Phone :: "pystr \<Rightarrow> (unit, field) run" where
  "Phone v =
     (case Phone_init None v of
        (self, out, Inr _) \<Rightarrow> ((), out, Inr self)
      | (self, out, Inl e) \<Rightarrow> ((), out, Inl e))"

section \<open>Dates: the parts of \<open>datetime\<close> the program uses\<close>

text \<open>
  A naive \<open>datetime\<close> is its seven fields. The calendar arithmetic is that of the
  standard library: \<open>_is_leap\<close>, \<open>_days_in_month\<close>, \<open>_days_before_year\<close>,
  \<open>_days_before_month\<close> and \<open>_ymd2ord\<close>; years run from 1 to 9999. The month
  tables are read for months 1 to 12 only: the constructor checks the month before
  it looks up the days of the month, and a \<open>datetime\<close> object has passed the
  constructor.
\<close>

record datetime =
  year :: int
  month :: int
  day :: int
  hour :: int
  minute :: int
  second :: int
  microsecond :: int

definition is_leap :: "int \<Rightarrow> bool" where
  "is_leap y = (y mod 4 = 0 \<and> (y mod 100 \<noteq> 0 \<or> y mod 400 = 0))"

definition days_in_month :: "int \<Rightarrow> int \<Rightarrow> int" where
  "days_in_month y m =
     (if m = 2 then (if is_leap y then 29 else 28)
      else if m = 4 \<or> m = 6 \<or> m = 9 \<or> m = 11 then 30 else 31)"

definition days_before_year :: "int \<Rightarrow> int" where
  "days_before_year y =
     (y - 1) * 365 + (y - 1) div 4 - (y - 1) div 100 + (y - 1) div 400"

definition days_before_month :: "int \<Rightarrow> int \<Rightarrow> int" where
  "days_before_month y m =
     [-1, 0, 31, 59, 90, 120, 151, 181, 212, 243, 273, 304, 334] ! nat m
       + (if m > 2 \<and> is_leap y then 1 else 0)"

definition ymd2ord :: "int \<Rightarrow> int \<Rightarrow> int \<Rightarrow> int" where
  "ymd2ord y m d = days_before_year y + days_before_month y m + d"

text \<open>
  The constructor checks its fields (\<open>_check_date_fields\<close>, \<open>_check_time_fields\<close>) and
  raises \<open>ValueError\<close> for a date that does not exist.
\<close>

definition check_date_fields :: "int \<Rightarrow> int \<Rightarrow> int \<Rightarrow> bool" where
  "check_date_fields y m d =
     (1 \<le> y \<and> y \<le> 9999 \<and> 1 \<le> m \<and> m \<le> 12 \<and> 1 \<le> d \<and> d \<le> days_in_month y m)"

definition check_time_fields :: "int \<Rightarrow> int \<Rightarrow> int \<Rightarrow> int \<Rightarrow> bool" where
  "check_time_fields h mi s us =
     (0 \<le> h \<and> h \<le> 23 \<and> 0 \<le> mi \<and> mi \<le> 59 \<and> 0 \<le> s \<and> s \<le> 59 \<and> 0 \<le> us \<and> us \<le> 999999)"

definition datetime_new ::
  "int \<Rightarrow> int \<Rightarrow> int \<Rightarrow> int \<Rightarrow> int \<Rightarrow> int \<Rightarrow> int \<Rightarrow> exn + datetime" where
  "datetime_new y m d h mi s us =
     (if check_date_fields y m d \<and> check_time_fields h mi s us
      then Inr \<lparr>year = y, month = m, day = d, hour = h, minute = mi, second = s,
                microsecond = us\<rparr>
      else Inl ValueError)"

text \<open>\<open>dt.replace(year=y)\<close> builds a new object from the fields, through the same checks.\<close>

definition replace_year :: "datetime \<Rightarrow> int \<Rightarrow> exn + datetime" where
  "replace_year dt y =
     datetime_new y (month dt) (day dt) (hour dt) (minute dt) (second dt) (microsecond dt)"

text \<open>Comparison is that of the field tuples; \<open>(a - b).days\<close> rounds towards minus infinity.\<close>

definition dt_key :: "datetime \<Rightarrow> int \<times> int \<times> int \<times> int \<times> int \<times> int \<times> int" where
  "dt_key dt = (year dt, month dt, day dt, hour dt, minute dt, second dt, microsecond dt)"

definition dt_lt :: "datetime \<Rightarrow> datetime \<Rightarrow> bool" where
  "dt_lt a b = (dt_key a < dt_key b)"

definition dt_le :: "datetime \<Rightarrow> datetime \<Rightarrow> bool" where
  "dt_le a b = (dt_key a \<le> dt_key b)"

definition toordinal :: "datetime \<Rightarrow> int" where
  "toordinal dt = ymd2ord (year dt) (month dt) (day dt)"

definition sub_days :: "datetime \<Rightarrow> datetime \<Rightarrow> int" where
  "sub_days a b =
     ((toordinal a - toordinal b) * 86400000000
        + ((second a + minute a * 60 + hour a * 3600)
             - (second b + minute b * 60 + hour b * 3600)) * 1000000
        + (microsecond a - microsecond b)) div 86400000000"

text \<open>
  \<open>datetime.strptime(s, "%d.%m.%Y")\<close>. The library turns the format into the regular
  expression
  \<^verbatim>\<open>(?P<d>3[0-1]|[1-2]\d|0[1-9]|[1-9]| [1-9])\.(?P<m>1[0-2]|0[1-9]|[1-9])\.(?P<Y>\d\d\d\d)\<close>
  and matches it at the start of \<open>s\<close>. It raises \<open>ValueError\<close> when there is no match,
  when the match does not reach the end of \<open>s\<close> ("unconverted data remains"), and when
  the three groups, each converted by \<open>int\<close>, are no date; otherwise the result is that
  date at midnight.
  Code points: 48 to 57 are \<open>0\<close> to \<open>9\<close>, 32 is the space.
\<close>

definition day_re :: rx where
  "day_re =
     Alt (Cat (lit 51) (range 48 49))
    (Alt (Cat (range 49 50) digit)
    (Alt (Cat (lit 48) (range 49 57))
    (Alt (range 49 57)
         (Cat (lit 32) (range 49 57)))))"

definition month_re :: rx where
  "month_re =
     Alt (Cat (lit 49) (range 48 50))
    (Alt (Cat (lit 48) (range 49 57))
         (range 49 57))"

definition year_re :: rx where
  "year_re = Cat digit (Cat digit (Cat digit digit))"

definition strptime_re :: rx where
  "strptime_re =
     Cat (Grp ''d'' day_re) (Cat (lit 46) (Cat (Grp ''m'' month_re) (Cat (lit 46)
       (Grp ''Y'' year_re))))"

definition group_int :: "(string \<times> pystr) list \<Rightarrow> string \<Rightarrow> int option" where
  "group_int g k =
     (case map_of g k of
        None \<Rightarrow> None
      | Some txt \<Rightarrow> py_int txt)"

definition strptime :: "pystr \<Rightarrow> exn + datetime" where
  "strptime s =
     (case re_match strptime_re s of
        None \<Rightarrow> Inl ValueError
      | Some (e, r, g) \<Rightarrow>
          if length s \<noteq> e then Inl ValueError
          else (case (group_int g ''Y'', group_int g ''m'', group_int g ''d'') of
                  (Some y, Some m, Some d) \<Rightarrow> datetime_new y m d 0 0 0 0
                | _ \<Rightarrow> Inl ValueError))"

section \<open>Birthday\<close>

text \<open>
  \<open>Birthday.is_valid_format\<close> and \<open>Birthday.is_valid_date\<close>. The second reads the clock;
  the value of \<open>datetime.now()\<close> is the argument \<open>now\<close>. Its \<open>try\<close> catches \<open>ValueError\<close>
  only.
\<close>

definition is_valid_format :: "pystr \<Rightarrow> bool" where
  "is_valid_format v = (re_match birthday_re v \<noteq> None)"

definition is_valid_date :: "datetime \<Rightarrow> pystr \<Rightarrow> exn + bool" where
  "is_valid_date now v =
     (case strptime v of
        Inr birthday_date \<Rightarrow> Inr (dt_le birthday_date now)
      | Inl e \<Rightarrow> if e = ValueError then Inr False else Inl e)"

section \<open>Record\<close>

text \<open>
  A \<open>Record\<close> has a \<open>Name\<close>, a list of \<open>Phone\<close> objects and a birthday, which is
  \<open>None\<close> or a \<open>Birthday\<close> object. \<open>Birthday\<close> inherits the undecorated
  \<open>Field.__init__\<close>, so a \<open>Birthday\<close> object always has its \<open>value\<close> and is that text
  here; as an object it is true in a condition.
\<close>

record Record =
  name :: field
  phones :: "field list"
  birthday :: "pystr option"

definition Record_init :: "pystr \<Rightarrow> (unit, Record) run" where
  "Record_init n =
     (case Name n of
        (_, out, Inr f) \<Rightarrow> ((), out, Inr \<lparr>name = f, phones = [], birthday = None\<rparr>)
      | (_, out, Inl e) \<Rightarrow> ((), out, Inl e))"

definition add_phone :: "Record \<Rightarrow> pystr \<Rightarrow> (Record, unit option) run" where
  "add_phone self phone_number =
     input_error Phone_10_digits
       (case Phone phone_number of
          (_, out, Inr phone) \<Rightarrow> (self\<lparr>phones := phones self @ [phone]\<rparr>, out, Inr ())
        | (_, out, Inl e) \<Rightarrow> (self, out, Inl e))"

section \<open>AddressBook\<close>

text \<open>
  \<open>self.data\<close> is a \<open>dict\<close> from names to records. A \<open>dict\<close> keeps its keys in
  insertion order, which \<open>values()\<close> follows, so it is an association list with one
  entry per key: assigning to a present key replaces the value where it stands,
  assigning to an absent key appends, \<open>del\<close> removes the entry.
\<close>

type_synonym 'v dict = "(pystr \<times> 'v) list"

definition dict_in :: "pystr \<Rightarrow> 'v dict \<Rightarrow> bool" where
  "dict_in k d = (map_of d k \<noteq> None)"

fun dict_set :: "pystr \<Rightarrow> 'v \<Rightarrow> 'v dict \<Rightarrow> 'v dict" where
  "dict_set k v [] = [(k, v)]"
| "dict_set k v ((k', v') # d) =
     (if k' = k then (k, v) # d else (k', v') # dict_set k v d)"

definition dict_del :: "pystr \<Rightarrow> 'v dict \<Rightarrow> 'v dict" where
  "dict_del k d = filter (\<lambda>(k', v). k' \<noteq> k) d"

definition dict_values :: "'v dict \<Rightarrow> 'v list" where
  "dict_values d = map snd d"

record AddressBook =
  data :: "Record dict"

definition add_record :: "AddressBook \<Rightarrow> Record \<Rightarrow> (AddressBook, unit) run" where
  "add_record self record =
     (case get_value (name record) of
        Inl e \<Rightarrow> (self, [], Inl e)
      | Inr k \<Rightarrow> (self\<lparr>data := dict_set k record (data self)\<rparr>, [], Inr ()))"

definition delete_record :: "AddressBook \<Rightarrow> pystr \<Rightarrow> (AddressBook, unit) run" where
  "delete_record self n =
     (if dict_in n (data self)
      then (self\<lparr>data := dict_del n (data self)\<rparr>, [Deleted n], Inr ())
      else (self, [Contact_not_found], Inr ()))"

definition find_record :: "AddressBook \<Rightarrow> pystr \<Rightarrow> Record option" where
  "find_record self n = map_of (data self) n"

definition add_birthday ::
  "datetime \<Rightarrow> AddressBook \<Rightarrow> pystr \<Rightarrow> pystr \<Rightarrow> (AddressBook, unit) run" where
  "add_birthday now self n b =
     (if \<not> is_valid_format b then (self, [Invalid_format], Inr ())
      else (case is_valid_date now b of
              Inl e \<Rightarrow> (self, [], Inl e)
            | Inr ok \<Rightarrow>
                if \<not> ok then (self, [Invalid_date], Inr ())
                else (case map_of (data self) n of
                        Some r \<Rightarrow>
                          (self\<lparr>data := dict_set n (r\<lparr>birthday := Some b\<rparr>) (data self)\<rparr>,
                           [Birthday_added n], Inr ())
                      | None \<Rightarrow> (self, [Contact_not_found], Inr ()))))"

definition show_birthday :: "AddressBook \<Rightarrow> pystr \<Rightarrow> (AddressBook, unit) run" where
  "show_birthday self n =
     (case map_of (data self) n of
        Some r \<Rightarrow>
          (case birthday r of
             Some b \<Rightarrow> (self, [Birthday_is n b], Inr ())
           | None \<Rightarrow> (self, [Birthday_info_not_found], Inr ()))
      | None \<Rightarrow> (self, [Birthday_info_not_found], Inr ()))"

text \<open>
  \<open>birthdays\<close>. \<open>occurrence\<close> is the date the \<open>try\<close> block computes for a birthday text:
  the parsed date moved to the current year and, when that lies before the current
  moment, to the next year; \<open>replace\<close> raises \<open>ValueError\<close> when the year has no such
  day. \<open>birthdays_try\<close> is the whole \<open>try\<close> block for one record: the pair it appends, if
  any. The loop catches \<open>ValueError\<close> only; its handler and the \<open>append\<close> read
  \<open>record.name.value\<close>.
\<close>

definition occurrence :: "datetime \<Rightarrow> pystr \<Rightarrow> exn + datetime" where
  "occurrence current_date b =
     (case strptime b of
        Inl e \<Rightarrow> Inl e
      | Inr parsed \<Rightarrow>
          (case replace_year parsed (year current_date) of
             Inl e \<Rightarrow> Inl e
           | Inr birthday_date \<Rightarrow>
               if dt_lt birthday_date current_date
               then replace_year birthday_date (year current_date + 1)
               else Inr birthday_date))"

definition birthdays_try ::
  "datetime \<Rightarrow> int \<Rightarrow> Record \<Rightarrow> pystr \<Rightarrow> exn + (pystr \<times> datetime) option" where
  "birthdays_try current_date days record b =
     (case occurrence current_date b of
        Inl e \<Rightarrow> Inl e
      | Inr birthday_date \<Rightarrow>
          (let days_until_birthday = sub_days birthday_date current_date
           in if 0 \<le> days_until_birthday \<and> days_until_birthday \<le> days
              then (case get_value (name record) of
                      Inl e \<Rightarrow> Inl e
                    | Inr n \<Rightarrow> Inr (Some (n, birthday_date)))
              else Inr None))"

fun birthdays_loop ::
  "datetime \<Rightarrow> int \<Rightarrow> Record list \<Rightarrow> (pystr \<times> datetime) list \<Rightarrow> msg list
     \<Rightarrow> msg list \<times> (exn + (pystr \<times> datetime) list)" where
  "birthdays_loop current_date days [] upcoming out = (out, Inr upcoming)"
| "birthdays_loop current_date days (record # rest) upcoming out =
     (case birthday record of
        None \<Rightarrow> birthdays_loop current_date days rest upcoming out
      | Some b \<Rightarrow>
          (case birthdays_try current_date days record b of
             Inr None \<Rightarrow> birthdays_loop current_date days rest upcoming out
           | Inr (Some p) \<Rightarrow> birthdays_loop current_date days rest (upcoming @ [p]) out
           | Inl e \<Rightarrow>
               if e = ValueError
               then (case get_value (name record) of
                       Inl e' \<Rightarrow> (out, Inl e')
                     | Inr n \<Rightarrow>
                         birthdays_loop current_date days rest upcoming
                           (out @ [Error_processing n]))
               else (out, Inl e)))"

text \<open>
  \<open>upcoming_birthdays\<close> is the local list of that name after \<open>sort\<close> (a stable sort by
  the date), with the lines the loop printed; \<open>birthdays\<close> then prints one line per
  pair. Nothing is assigned to the address book or to a record.
\<close>

definition upcoming_birthdays ::
  "datetime \<Rightarrow> AddressBook \<Rightarrow> int \<Rightarrow> msg list \<times> (exn + (pystr \<times> datetime) list)" where
  "upcoming_birthdays current_date self days =
     (case birthdays_loop current_date days (dict_values (data self)) [] [] of
        (out, Inl e) \<Rightarrow> (out, Inl e)
      | (out, Inr upcoming) \<Rightarrow> (out, Inr (sort_key (\<lambda>x. dt_key (snd x)) upcoming)))"

definition birthdays :: "datetime \<Rightarrow> AddressBook \<Rightarrow> int \<Rightarrow> (AddressBook, unit) run" where
  "birthdays current_date self days =
     (case upcoming_birthdays current_date self days of
        (out, Inl e) \<Rightarrow> (self, out, Inl e)
      | (out, Inr upcoming) \<Rightarrow>
          (self,
           out @ map (\<lambda>(n, birthday_date).
                        Upcoming n (year birthday_date, month birthday_date, day birthday_date))
                     upcoming,
           Inr ()))"

definition change :: "AddressBook \<Rightarrow> pystr \<Rightarrow> pystr \<Rightarrow> (AddressBook, unit) run" where
  "change self n new_phone_number =
     (if length new_phone_number \<noteq> 10 \<or> \<not> isdigit new_phone_number
      then (self, [Phone_10_digits], Inr ())
      else (case map_of (data self) n of
              Some record \<Rightarrow>
                (case add_phone (record\<lparr>phones := []\<rparr>) new_phone_number of
                   (record', out, Inr _) \<Rightarrow>
                     (self\<lparr>data := dict_set n record' (data self)\<rparr>,
                      out @ [Phone_updated n], Inr ())
                 | (record', out, Inl e) \<Rightarrow>
                     (self\<lparr>data := dict_set n record' (data self)\<rparr>, out, Inl e))
            | None \<Rightarrow> (self, [Contact_not_found], Inr ())))"

definition del_contact :: "AddressBook \<Rightarrow> pystr \<Rightarrow> (AddressBook, unit) run" where
  "del_contact self n =
     (if dict_in n (data self)
      then (self\<lparr>data := dict_del n (data self)\<rparr>, [Deleted n], Inr ())
      else (self, [Contact_not_found], Inr ()))"

section \<open>Example data\<close>

text \<open>
  A moment at noon on 4 November 2026, and an address book with Ann (two phones, born
  on 4 November), Bob (born on 5 November) and, in a second book, Eve (born on
  29 February). Code point 178 is the superscript two.
\<close>

definition ex_now :: datetime where
  "ex_now = \<lparr>year = 2026, month = 11, day = 4, hour = 12, minute = 0, second = 0,
              microsecond = 0\<rparr>"

definition ex_ann :: Record where
  "ex_ann = \<lparr>name = Some (py ''Ann''),
              phones = [Some (py ''1111111111''), Some (py ''2222222222'')],
              birthday = Some (py ''04.11.2000'')\<rparr>"

definition ex_bob :: Record where
  "ex_bob = \<lparr>name = Some (py ''Bob''), phones = [], birthday = Some (py ''05.11.2000'')\<rparr>"

definition ex_eve :: Record where
  "ex_eve = \<lparr>name = Some (py ''Eve''), phones = [], birthday = Some (py ''29.02.2000'')\<rparr>"

definition ex_book :: AddressBook where
  "ex_book = \<lparr>data = [(py ''Ann'', ex_ann), (py ''Bob'', ex_bob)]\<rparr>"

definition ex_book_eve :: AddressBook where
  "ex_book_eve = \<lparr>data = [(py ''Eve'', ex_eve)]\<rparr>"

definition ex_superscripts :: pystr where
  "ex_superscripts = [178, 178, 178, 178, 178, 178, 178, 178, 178, 178]"

section \<open>Birthday texts, as the specification words them\<close>

text \<open>
  The text \<open>DD.MM.YYYY\<close> of a date: day and month with two digits, the year with four,
  in ASCII digits, with full stops between them. These definitions follow the
  specification's words, not the program; the program's validators are compared with
  them below.
\<close>

definition two_digits :: "nat \<Rightarrow> pystr" where
  "two_digits k = [48 + k div 10, 48 + k mod 10]"

definition four_digits :: "nat \<Rightarrow> pystr" where
  "four_digits k = [48 + k div 1000, 48 + k div 100 mod 10, 48 + k div 10 mod 10, 48 + k mod 10]"

definition dd_mm_yyyy :: "nat \<Rightarrow> nat \<Rightarrow> nat \<Rightarrow> pystr" where
  "dd_mm_yyyy y m d = two_digits d @ 46 # two_digits m @ 46 # four_digits y"

definition midnight :: "nat \<Rightarrow> nat \<Rightarrow> nat \<Rightarrow> datetime" where
  "midnight y m d =
     \<lparr>year = int y, month = int m, day = int d, hour = 0, minute = 0, second = 0,
      microsecond = 0\<rparr>"

section \<open>The texts the format check accepts, spelled out\<close>


section \<open>Properties\<close>

lemma rx_run_rep_Cls:
  "rx_run (rep n (Cls P)) (i, s, g) =
     (if n \<le> length s \<and> list_all P (take n s) then [(i + n, drop n s, g)] else [])"
proof (induction n arbitrary: i s)
  case 0
  then show ?case by simp
next
  case (Suc n)
  show ?case
  proof (cases s)
    case Nil
    then show ?thesis by simp
  next
    case (Cons c cs)
    then show ?thesis using Suc by simp
  qed
qed

lemma validate_phone_iff:
  "validate_phone s \<longleftrightarrow>
     list_all isdecimal_cp (take 10 s) \<and> (length s = 10 \<or> (length s = 11 \<and> s ! 10 = 10))"
proof -
  have d: "drop 10 s = [] \<longleftrightarrow> length s \<le> 10" by simp
  have e: "drop 10 s = [10] \<longleftrightarrow> length s = 11 \<and> s ! 10 = 10"
  proof
    assume h: "drop 10 s = [10]"
    then have "length (drop 10 s) = 1" by simp
    then have l: "length s = 11" by simp
    from h have "drop 10 s ! 0 = 10" by simp
    then have "s ! 10 = 10" using l by simp
    with l show "length s = 11 \<and> s ! 10 = 10" by simp
  next
    assume h: "length s = 11 \<and> s ! 10 = 10"
    then have "length (drop 10 s) = 1" by simp
    then obtain x where x: "drop 10 s = [x]"
      by (cases "drop 10 s") auto
    then have "x = drop 10 s ! 0" by simp
    also have "\<dots> = s ! 10" using h by simp
    finally show "drop 10 s = [10]" using x h by simp
  qed
  show ?thesis
    unfolding validate_phone_def re_match_def phone_re_def
    using d e by (auto simp: rx_run_rep_Cls split: list.splits)
qed


subsection \<open>Character classes on the low code points\<close>

lemma decimal_value_low:
  "c < 1632 \<Longrightarrow> decimal_value c = (if 48 \<le> c \<and> c < 58 then Some (c - 48) else None)"
  by (simp add: decimal_value_def nd_zeros_def)

lemma isdecimal_cp_low: "c < 1632 \<Longrightarrow> isdecimal_cp c \<longleftrightarrow> 48 \<le> c \<and> c < 58"
  by (simp add: isdecimal_cp_def decimal_value_low)

lemma isdigit_cp_superscript_two: "isdigit_cp 178 \<and> \<not> isdecimal_cp 178"
  by (simp add: isdigit_cp_def digit_extra_def isdecimal_cp_low)

subsection \<open>Phone validation\<close>

text \<open>
  C1. The claim: the check of the \<open>Phone\<close> constructor accepts a string exactly when it
  has 10 characters, all decimal digits. The check is \<open>re.match(r'^\d{10}$', value)\<close>,
  and \<open>$\<close> also matches before a final line feed (\<open>validate_phone_iff\<close> above is the
  exact set of accepted strings): the 11-character string of the digits \<open>0123456789\<close>
  followed by a line feed is accepted.
\<close>

theorem validate_phone_trailing_newline:
  "validate_phone (py ''0123456789'' @ [10]) \<and> length (py ''0123456789'' @ [10]) = 11"
  by (simp add: validate_phone_iff py_def isdecimal_cp_low)

subsection \<open>Constructors under the decorator\<close>

lemma Phone_valid: "validate_phone v \<Longrightarrow> Phone v = ((), [], Inr (Some v))"
  by (simp add: Phone_def Phone_init_def input_error_def Field_init_def)

lemma Phone_invalid: "\<not> validate_phone v \<Longrightarrow> Phone v = ((), [Phone_10_digits], Inr None)"
  by (simp add: Phone_def Phone_init_def input_error_def)

lemma add_phone_valid:
  "validate_phone v \<Longrightarrow>
     add_phone r v = (r\<lparr>phones := phones r @ [Some v]\<rparr>, [], Inr (Some ()))"
  by (simp add: add_phone_def Phone_valid input_error_def)

lemma add_phone_invalid:
  "\<not> validate_phone v \<Longrightarrow>
     add_phone r v = (r\<lparr>phones := phones r @ [None]\<rparr>, [Phone_10_digits], Inr (Some ()))"
  by (simp add: add_phone_def Phone_invalid input_error_def)

lemma not_validate_phone_abc: "\<not> validate_phone (py ''abc'')"
  by (simp add: validate_phone_iff py_def)

text \<open>
  C4. The claim: \<open>add_phone\<close> with a string that is no valid phone reports the failure
  and leaves the record unchanged, and with a valid one appends the phone. The second
  half is \<open>add_phone_valid\<close>. The first half fails: \<open>Phone.__init__\<close> is decorated, so
  the \<open>ValueError\<close> never reaches \<open>add_phone\<close>; \<open>Phone(...)\<close> returns an object without
  a \<open>value\<close>, and \<open>add_phone\<close> appends it (\<open>add_phone_invalid\<close>). Here on Ann's record
  and the string \<open>abc\<close>: the message is printed and the list has a third entry.
\<close>

theorem add_phone_invalid_appends:
  "add_phone ex_ann (py ''abc'') =
     (ex_ann\<lparr>phones := [Some (py ''1111111111''), Some (py ''2222222222''), None]\<rparr>,
      [Phone_10_digits], Inr (Some ()))"
  by (simp add: add_phone_invalid not_validate_phone_abc) (simp add: ex_ann_def)

lemma validate_phone_example: "validate_phone (py ''0123456789'')"
  by (simp add: validate_phone_iff py_def isdecimal_cp_low)

lemma Record_init_nonempty:
  "n \<noteq> [] \<Longrightarrow>
     Record_init n = ((), [], Inr \<lparr>name = Some n, phones = [], birthday = None\<rparr>)"
  by (simp add: Record_init_def Name_def Name_init_def input_error_def Field_init_def)

text \<open>
  C5. The claim: creating a record with the empty name fails with an error and
  produces no contact; with a non-empty name it gives the record with that name, no
  phones and no birthday. The second half is \<open>Record_init_nonempty\<close>. The first half
  fails: \<open>Name.__init__\<close> is decorated, so its \<open>ValueError\<close> is caught there, "Name
  cannot be empty." is printed, and \<open>Record("")\<close> returns normally, a record whose
  name has no value. The record works as one: \<open>add_phone\<close> on it appends the phone.
\<close>

theorem Record_init_empty_name:
  "Record_init [] = ((), [Name_empty], Inr \<lparr>name = None, phones = [], birthday = None\<rparr>)
   \<and> add_phone \<lparr>name = None, phones = [], birthday = None\<rparr> (py ''0123456789'')
       = (\<lparr>name = None, phones = [Some (py ''0123456789'')], birthday = None\<rparr>, [],
          Inr (Some ()))"
  by (simp add: Record_init_def Name_def Name_init_def input_error_def
      add_phone_valid validate_phone_example)

subsection \<open>Deleting a contact\<close>

text \<open>
  C9. \<open>delete_record\<close> and \<open>del_contact\<close> do the same: for every address book and name
  they leave the same address book, print the same line and return the same; the
  entry is removed and "deleted" reported when the name is present, and the book is
  unchanged and "not found" reported otherwise.
\<close>

theorem delete_entry_points_agree:
  "delete_record book n = del_contact book n \<and>
   del_contact book n =
     (if dict_in n (data book)
      then (book\<lparr>data := dict_del n (data book)\<rparr>, [Deleted n], Inr ())
      else (book, [Contact_not_found], Inr ()))"
  by (simp add: delete_record_def del_contact_def)

theorem delete_entry_points_agree_witness:
  "delete_record ex_book (py ''Ann'') = del_contact ex_book (py ''Ann'') \<and>
   del_contact ex_book (py ''Ann'')
     = (\<lparr>data = [(py ''Bob'', ex_bob)]\<rparr>, [Deleted (py ''Ann'')], Inr ())"
  using delete_entry_points_agree [of ex_book "py ''Ann''"]
  by (simp add: ex_book_def dict_in_def dict_del_def py_def)

subsection \<open>The birthday query\<close>

text \<open>
  C10. \<open>birthdays\<close> is read-only: for every address book, moment and window, the
  address book after the call (the mapping and every record in it) is the address
  book before the call, also when the call raises.
\<close>

theorem birthdays_read_only: "fst (birthdays now book days) = book"
  by (simp add: birthdays_def split: prod.splits sum.splits)

theorem birthdays_read_only_witness: "fst (birthdays ex_now ex_book 7) = ex_book"
  using birthdays_read_only [of ex_now ex_book 7] .

subsection \<open>Parsing the text of a date\<close>

lemma isdecimal_ascii: "k < 10 \<Longrightarrow> isdecimal_cp (48 + k)"
  by (simp add: isdecimal_cp_low)

lemma decimal_value_ascii: "k < 10 \<Longrightarrow> decimal_value (48 + k) = Some k"
  by (simp add: decimal_value_low)

lemma enum10: "(a::nat) < 10 \<Longrightarrow> a \<in> {0, 1, 2, 3, 4, 5, 6, 7, 8, 9}"
  by simp arith

text \<open>
  The day and the month of a text \<open>DD.MM.YYYY\<close>, digit by digit: of the ways the group
  can match, the one that is followed by the full stop is the one with both digits,
  and there is one exactly when the number is a day (1 to 31) or a month (1 to 12).
\<close>

lemma day_digits:
  assumes "a < 10" "b < 10"
  shows "concat (map (rx_run (Cat (lit 46) R))
                   (rx_run (Grp k day_re) (i, (48 + a) # (48 + b) # 46 # rest, g)))
     = (if 1 \<le> 10 * a + b \<and> 10 * a + b \<le> 31
        then rx_run R (Suc (Suc (Suc i)), rest, g @ [(k, [48 + a, 48 + b])])
        else [])"
  using enum10 [OF assms(1)] enum10 [OF assms(2)]
  by (elim insertE emptyE; simp add: day_re_def lit_def range_def isdecimal_cp_low)

lemma month_digits:
  assumes "a < 10" "b < 10"
  shows "concat (map (rx_run (Cat (lit 46) R))
                   (rx_run (Grp k month_re) (i, (48 + a) # (48 + b) # 46 # rest, g)))
     = (if 1 \<le> 10 * a + b \<and> 10 * a + b \<le> 12
        then rx_run R (Suc (Suc (Suc i)), rest, g @ [(k, [48 + a, 48 + b])])
        else [])"
  using enum10 [OF assms(1)] enum10 [OF assms(2)]
  by (elim insertE emptyE; simp add: month_re_def lit_def range_def isdecimal_cp_low)

lemma day_group_all:
  assumes "d < 100"
  shows "concat (map (rx_run (Cat (lit 46) R))
                   (rx_run (Grp k day_re) (i, two_digits d @ 46 # rest, g)))
     = (if 1 \<le> d \<and> d \<le> 31 then rx_run R (Suc (Suc (Suc i)), rest, g @ [(k, two_digits d)])
        else [])"
proof -
  from assms have "d div 10 < 10" "d mod 10 < 10" by simp_all
  from day_digits [OF this, of R k i rest g] show ?thesis
    by (simp add: two_digits_def)
qed

lemma month_group_all:
  assumes "m < 100"
  shows "concat (map (rx_run (Cat (lit 46) R))
                   (rx_run (Grp k month_re) (i, two_digits m @ 46 # rest, g)))
     = (if 1 \<le> m \<and> m \<le> 12 then rx_run R (Suc (Suc (Suc i)), rest, g @ [(k, two_digits m)])
        else [])"
proof -
  from assms have "m div 10 < 10" "m mod 10 < 10" by simp_all
  from month_digits [OF this, of R k i rest g] show ?thesis
    by (simp add: two_digits_def)
qed

lemma four_digits_lt:
  assumes "(y::nat) < 10000"
  shows "y div 1000 < 10" "y div 100 mod 10 < 10" "y div 10 mod 10 < 10" "y mod 10 < 10"
  using assms by simp_all

lemma year_group:
  assumes "y < 10000"
  shows "rx_run (Grp k year_re) (i, four_digits y, g)
           = [(Suc (Suc (Suc (Suc i))), [], g @ [(k, four_digits y)])]"
  using four_digits_lt [OF assms]
  by (simp add: year_re_def four_digits_def isdecimal_ascii)

lemma int_space_low: "c < 133 \<Longrightarrow> int_space c \<longleftrightarrow> (9 \<le> c \<and> c \<le> 13) \<or> c = 32"
  by (auto simp: int_space_def)

lemma int_digits_ascii:
  "a < 10 \<Longrightarrow> int_digits p acc ((48 + a) # cs) = int_digits True (10 * acc + a) cs"
  by (simp add: decimal_value_ascii)

lemma strip_ascii_digits:
  "a < 10 \<Longrightarrow> b < 10 \<Longrightarrow> strip ((48 + a) # cs @ [48 + b]) = (48 + a) # cs @ [48 + b]"
  by (simp add: strip_def int_space_low)

lemma py_int_ascii_digits:
  assumes "a < 10" "b < 10"
  shows "py_int ((48 + a) # cs @ [48 + b])
           = map_option int (int_digits True a (cs @ [48 + b]))"
  using assms by (simp add: py_int_def strip_ascii_digits decimal_value_ascii)

lemma int_two_digits: "k < 100 \<Longrightarrow> py_int (two_digits k) = Some (int k)"
proof -
  assume "k < 100"
  then have l: "k div 10 < 10" "k mod 10 < 10" by simp_all
  from py_int_ascii_digits [OF l, of "[]"] int_digits_ascii [OF l(2), of True "k div 10" "[]"]
  show ?thesis by (simp add: two_digits_def)
qed

lemma four_digits_sum:
  "10 * (10 * (10 * ((k::nat) div 1000) + k div 100 mod 10) + k div 10 mod 10) + k mod 10 = k"
proof -
  have h: "k div 100 = k div 10 div 10" "k div 1000 = k div 10 div 10 div 10"
    by (simp_all add: div_mult2_eq [symmetric])
  have "10 * (k div 10 div 10 div 10) + k div 10 div 10 mod 10 = k div 10 div 10"
    by (rule mult_div_mod_eq)
  moreover have "10 * (k div 10 div 10) + k div 10 mod 10 = k div 10"
    by (rule mult_div_mod_eq)
  moreover have "10 * (k div 10) + k mod 10 = k"
    by (rule mult_div_mod_eq)
  ultimately show ?thesis
    unfolding h by simp
qed

lemma int_four_digits:
  assumes "k < 10000"
  shows "py_int (four_digits k) = Some (int k)"
proof -
  note l = four_digits_lt [OF assms]
  have "py_int (four_digits k)
          = map_option int (int_digits True (k div 1000)
              [48 + k div 100 mod 10, 48 + k div 10 mod 10, 48 + k mod 10])"
    using py_int_ascii_digits [OF l(1) l(4), of "[48 + k div 100 mod 10, 48 + k div 10 mod 10]"]
    by (simp add: four_digits_def)
  also have "\<dots> = Some (int (10 * (10 * (10 * (k div 1000) + k div 100 mod 10)
                                  + k div 10 mod 10) + k mod 10))"
    by (simp only: int_digits_ascii [OF l(2)] int_digits_ascii [OF l(3)]
        int_digits_ascii [OF l(4)] int_digits.simps(1) if_True option.map)
  finally show ?thesis by (simp only: four_digits_sum)
qed

lemma length_dd_mm_yyyy: "length (dd_mm_yyyy y m d) = 10"
  by (simp add: dd_mm_yyyy_def two_digits_def four_digits_def)

lemma strptime_re_dd_mm_yyyy_all:
  assumes "d < 100" "m < 100" "y < 10000"
  shows "rx_run strptime_re (0, dd_mm_yyyy y m d, [])
           = (if 1 \<le> d \<and> d \<le> 31 \<and> 1 \<le> m \<and> m \<le> 12
              then [(10, [], [(''d'', two_digits d), (''m'', two_digits m), (''Y'', four_digits y)])]
              else [])"
  using assms
  by (simp add: strptime_re_def dd_mm_yyyy_def day_group_all month_group_all year_group
      del: rx_run.simps(6))

lemma strptime_dd_mm_yyyy_all:
  assumes "d < 100" "m < 100" "y < 10000"
  shows "strptime (dd_mm_yyyy y m d)
           = (if check_date_fields (int y) (int m) (int d) then Inr (midnight y m d)
              else Inl ValueError)"
proof (cases "1 \<le> d \<and> d \<le> 31 \<and> 1 \<le> m \<and> m \<le> 12")
  case True
  then show ?thesis
    using assms
    by (simp add: strptime_def re_match_def strptime_re_dd_mm_yyyy_all [OF assms]
        length_dd_mm_yyyy group_int_def int_two_digits int_four_digits
        datetime_new_def check_time_fields_def midnight_def)
next
  case False
  then have "\<not> check_date_fields (int y) (int m) (int d)"
    by (auto simp: check_date_fields_def days_in_month_def split: if_splits)
  moreover have "rx_run strptime_re (0, dd_mm_yyyy y m d, []) = []"
    using False by (simp only: strptime_re_dd_mm_yyyy_all [OF assms] if_False)
  ultimately show ?thesis
    by (simp add: strptime_def re_match_def)
qed

lemma strptime_dd_mm_yyyy:
  assumes "check_date_fields (int y) (int m) (int d)"
  shows "strptime (dd_mm_yyyy y m d) = Inr (midnight y m d)"
proof -
  from assms have "d < 100" "m < 100" "y < 10000"
    by (auto simp: check_date_fields_def days_in_month_def split: if_splits)
  from strptime_dd_mm_yyyy_all [OF this] assms show ?thesis by simp
qed

lemma is_valid_format_dd_mm_yyyy:
  assumes "d < 100" "m < 100" "y < 10000"
  shows "is_valid_format (dd_mm_yyyy y m d)"
proof -
  have "d div 10 < 10" "d mod 10 < 10" "m div 10 < 10" "m mod 10 < 10"
    using assms by simp_all
  then show ?thesis
    using four_digits_lt [OF assms(3)]
    by (simp add: is_valid_format_def re_match_def birthday_re_def dd_mm_yyyy_def two_digits_def
        four_digits_def lit_def isdecimal_ascii rx_run_rep_Cls)
qed

text \<open>A day written with a space, which \<open>strptime\<close> accepts, and the format check.\<close>

lemma strptime_space_padded_day:
  "strptime (py '' 4.11.2000'') = Inr (midnight 2000 11 4)"
  by (simp add: strptime_def re_match_def strptime_re_def day_re_def month_re_def year_re_def
      lit_def range_def isdecimal_cp_low decimal_value_low group_int_def py_int_def strip_def
      int_space_low datetime_new_def check_date_fields_def check_time_fields_def
      days_in_month_def is_leap_def py_def midnight_def)


subsection \<open>Setting and showing a birthday\<close>

lemma map_of_dict_set: "map_of (dict_set k v d) k' = (if k' = k then Some v else map_of d k')"
  by (induction d) auto

lemma round_trip_accepted:
  assumes "is_valid_format b" "is_valid_date now b = Inr True" "map_of (data book) n = Some r"
  shows "add_birthday now book n b
           = (book\<lparr>data := dict_set n (r\<lparr>birthday := Some b\<rparr>) (data book)\<rparr>,
              [Birthday_added n], Inr ())"
    and "show_birthday (book\<lparr>data := dict_set n (r\<lparr>birthday := Some b\<rparr>) (data book)\<rparr>) n
           = (book\<lparr>data := dict_set n (r\<lparr>birthday := Some b\<rparr>) (data book)\<rparr>,
              [Birthday_is n b], Inr ())"
  using assms by (simp_all add: add_birthday_def show_birthday_def map_of_dict_set)

lemma midnight_le_now:
  assumes "(int y, int m, int d) \<le> (year now, month now, day now)"
      and "check_time_fields (hour now) (minute now) (second now) (microsecond now)"
  shows "dt_le (midnight y m d) now"
  using assms by (auto simp: dt_le_def dt_key_def midnight_def check_time_fields_def)

lemma is_valid_date_dd_mm_yyyy:
  assumes "check_date_fields (int y) (int m) (int d)"
      and "(int y, int m, int d) \<le> (year now, month now, day now)"
      and "check_time_fields (hour now) (minute now) (second now) (microsecond now)"
  shows "is_valid_date now (dd_mm_yyyy y m d) = Inr True"
  by (simp add: is_valid_date_def strptime_dd_mm_yyyy [OF assms(1)] midnight_le_now [OF assms(2,3)])

text \<open>
  C7. Birthday round trip: for every contact of the address book and every text
  \<open>DD.MM.YYYY\<close> of a calendar date (\<open>check_date_fields\<close>: year 1 to 9999, a month, a
  day of that month) that is not after today's date, \<open>add_birthday\<close> accepts the text
  and stores it, and \<open>show_birthday\<close> on the resulting address book then prints that
  same text. \<open>now\<close> is any moment of today (its time fields are those of a clock).
  \<open>round_trip_accepted\<close> is the same for every text the two validators accept.
\<close>

theorem birthday_round_trip:
  assumes "map_of (data book) n = Some r"
      and "check_date_fields (int y) (int m) (int d)"
      and "(int y, int m, int d) \<le> (year now, month now, day now)"
      and "check_time_fields (hour now) (minute now) (second now) (microsecond now)"
  shows "\<exists>book'. add_birthday now book n (dd_mm_yyyy y m d) = (book', [Birthday_added n], Inr ())
           \<and> show_birthday book' n = (book', [Birthday_is n (dd_mm_yyyy y m d)], Inr ())"
proof -
  from assms(2) have "d < 100" "m < 100" "y < 10000"
    by (auto simp: check_date_fields_def days_in_month_def split: if_splits)
  then have f: "is_valid_format (dd_mm_yyyy y m d)"
    by (rule is_valid_format_dd_mm_yyyy)
  have v: "is_valid_date now (dd_mm_yyyy y m d) = Inr True"
    using assms(2-4) by (rule is_valid_date_dd_mm_yyyy)
  from round_trip_accepted [OF f v assms(1)] show ?thesis by blast
qed

lemma dd_mm_yyyy_example: "dd_mm_yyyy 2000 11 4 = py ''04.11.2000''"
  by (simp add: dd_mm_yyyy_def two_digits_def four_digits_def py_def)

theorem birthday_round_trip_witness:
  "\<exists>book'. add_birthday ex_now ex_book (py ''Bob'') (py ''04.11.2000'')
              = (book', [Birthday_added (py ''Bob'')], Inr ())
           \<and> show_birthday book' (py ''Bob'')
              = (book', [Birthday_is (py ''Bob'') (py ''04.11.2000'')], Inr ())"
proof -
  have 1: "map_of (data ex_book) (py ''Bob'') = Some ex_bob"
    by (simp add: ex_book_def py_def)
  have 2: "check_date_fields (int 2000) (int 11) (int 4)"
    by (simp add: check_date_fields_def days_in_month_def)
  have 3: "(int 2000, int 11, int 4) \<le> (year ex_now, month ex_now, day ex_now)"
    by (simp add: ex_now_def)
  have 4: "check_time_fields (hour ex_now) (minute ex_now) (second ex_now) (microsecond ex_now)"
    by (simp add: ex_now_def check_time_fields_def)
  show ?thesis
    using birthday_round_trip [OF 1 2 3 4] by (simp add: dd_mm_yyyy_example)
qed

subsection \<open>The validators return\<close>

lemma strptime_ValueError: "strptime s = Inl e \<Longrightarrow> e = ValueError"
  by (auto simp: strptime_def datetime_new_def split: option.splits prod.splits if_splits)




lemma dd_mm_yyyy_31_02_2020: "dd_mm_yyyy 2020 2 31 = py ''31.02.2020''"
  by (simp add: dd_mm_yyyy_def two_digits_def four_digits_def py_def)


subsection \<open>Changing a phone\<close>

lemma change_rejected:
  "length v \<noteq> 10 \<or> \<not> isdigit v \<Longrightarrow> change book n v = (book, [Phone_10_digits], Inr ())"
  by (auto simp: change_def)

lemma change_absent:
  "length v = 10 \<Longrightarrow> isdigit v \<Longrightarrow> map_of (data book) n = None \<Longrightarrow>
     change book n v = (book, [Contact_not_found], Inr ())"
  by (simp add: change_def)

lemma change_valid:
  "length v = 10 \<Longrightarrow> isdigit v \<Longrightarrow> validate_phone v \<Longrightarrow> map_of (data book) n = Some r \<Longrightarrow>
     change book n v
       = (book\<lparr>data := dict_set n (r\<lparr>phones := [Some v]\<rparr>) (data book)\<rparr>,
          [Phone_updated n], Inr ())"
  by (simp add: change_def add_phone_valid)

lemma change_swallowed:
  "length v = 10 \<Longrightarrow> isdigit v \<Longrightarrow> \<not> validate_phone v \<Longrightarrow> map_of (data book) n = Some r \<Longrightarrow>
     change book n v
       = (book\<lparr>data := dict_set n (r\<lparr>phones := [None]\<rparr>) (data book)\<rparr>,
          [Phone_10_digits, Phone_updated n], Inr ())"
  by (simp add: change_def add_phone_invalid)

lemma ex_superscripts_digits:
  "length ex_superscripts = 10" "isdigit ex_superscripts" "\<not> validate_phone ex_superscripts"
  by (simp_all add: ex_superscripts_def isdigit_def validate_phone_iff isdigit_cp_superscript_two)

text \<open>
  C6. The claim: \<open>change\<close> rejects every text that is not 10 decimal digits, reports an
  absent name, replaces the whole phone list by the one new number on success, and
  leaves the address book unchanged when it fails. For the texts its guard rejects, for
  an absent name and for 10 decimal digits that holds (\<open>change_rejected\<close>,
  \<open>change_absent\<close>, \<open>change_valid\<close>). The guard is \<open>len(...) != 10 or not
  ....isdigit()\<close>, and \<open>isdigit\<close> also accepts digits that are no decimals, which the
  \<open>Phone\<close> constructor then refuses without raising (\<open>change_swallowed\<close>). Here with
  ten superscript twos for Ann: both "must be 10 digits" and "updated successfully" are
  printed, and Ann's two phones are replaced by one \<open>Phone\<close> object without a value.
\<close>

theorem change_superscripts:
  "change ex_book (py ''Ann'') ex_superscripts =
     (\<lparr>data = [(py ''Ann'', ex_ann\<lparr>phones := [None]\<rparr>), (py ''Bob'', ex_bob)]\<rparr>,
      [Phone_10_digits, Phone_updated (py ''Ann'')], Inr ())"
proof -
  have "map_of (data ex_book) (py ''Ann'') = Some ex_ann"
    by (simp add: ex_book_def)
  from change_swallowed [OF ex_superscripts_digits this] show ?thesis
    by (simp add: ex_book_def)
qed

theorem change_superscripts_witness:
  "fst (snd (change ex_book (py ''Ann'') ex_superscripts))
     = [Phone_10_digits, Phone_updated (py ''Ann'')]"
  using change_superscripts by simp

subsection \<open>Upcoming birthdays\<close>

lemmas date_eval = replace_year_def datetime_new_def check_date_fields_def check_time_fields_def
  days_in_month_def is_leap_def dt_lt_def dt_key_def ex_now_def midnight_def

lemmas sub_days_eval = sub_days_def toordinal_def ymd2ord_def days_before_year_def
  days_before_month_def is_leap_def ex_now_def midnight_def

lemma strptime_ann: "strptime (py ''04.11.2000'') = Inr (midnight 2000 11 4)"
  using strptime_dd_mm_yyyy [of 2000 11 4]
  by (simp add: dd_mm_yyyy_example check_date_fields_def days_in_month_def)

lemma dd_mm_yyyy_bob: "dd_mm_yyyy 2000 11 5 = py ''05.11.2000''"
  by (simp add: dd_mm_yyyy_def two_digits_def four_digits_def py_def)

lemma dd_mm_yyyy_eve: "dd_mm_yyyy 2000 2 29 = py ''29.02.2000''"
  by (simp add: dd_mm_yyyy_def two_digits_def four_digits_def py_def)

lemma strptime_bob: "strptime (py ''05.11.2000'') = Inr (midnight 2000 11 5)"
  using strptime_dd_mm_yyyy [of 2000 11 5]
  by (simp add: dd_mm_yyyy_bob check_date_fields_def days_in_month_def)

lemma strptime_eve: "strptime (py ''29.02.2000'') = Inr (midnight 2000 2 29)"
  using strptime_dd_mm_yyyy [of 2000 2 29]
  by (simp add: dd_mm_yyyy_eve check_date_fields_def days_in_month_def is_leap_def)

lemma occurrence_ann: "occurrence ex_now (py ''04.11.2000'') = Inr (midnight 2027 11 4)"
  by (simp add: occurrence_def strptime_ann) (simp add: date_eval)

lemma occurrence_bob: "occurrence ex_now (py ''05.11.2000'') = Inr (midnight 2026 11 5)"
  by (simp add: occurrence_def strptime_bob) (simp add: date_eval)

lemma occurrence_eve: "occurrence ex_now (py ''29.02.2000'') = Inl ValueError"
  by (simp add: occurrence_def strptime_eve) (simp add: date_eval)

lemma sub_days_ann: "sub_days (midnight 2027 11 4) ex_now = 364"
  by (simp add: sub_days_eval)

lemma sub_days_bob: "sub_days (midnight 2026 11 5) ex_now = 0"
  by (simp add: sub_days_eval)

text \<open>
  C3. The claim: with a window of 0 days the query returns exactly the contacts whose
  birthday falls today. The program compares the occurrence, a date at midnight, with
  the current moment, time of day included. At noon on 4 November 2026 Ann's birthday
  of 4 November lies before the current moment, so it is moved to 2027 and is 364 days
  away; Bob's birthday of 5 November is less than one day away, so it counts as 0 days.
  The query with window 0 returns Bob, whose birthday is tomorrow, and not Ann, whose
  birthday is today.
\<close>

theorem upcoming_birthdays_window_zero:
  "upcoming_birthdays ex_now ex_book 0 = ([], Inr [(py ''Bob'', midnight 2026 11 5)])
   \<and> occurrence ex_now (py ''04.11.2000'') = Inr (midnight 2027 11 4)
   \<and> (year ex_now, month ex_now, day ex_now) = (2026, 11, 4)"
  by (simp add: upcoming_birthdays_def ex_book_def dict_values_def ex_ann_def ex_bob_def
      birthdays_try_def occurrence_ann occurrence_bob sub_days_ann sub_days_bob get_value_def)
     (simp add: ex_now_def)

text \<open>
  C2. The claim: for every contact with a birthday the query takes this year's date of
  the birthday, moves it to the next year exactly when it fell before today, and
  includes the pair exactly when 0 \<le> (occurrence - today).days \<le> window. At noon on
  4 November 2026 Ann's birthday of 4 November has not fallen before today and is 0
  days away, so with a window of 7 days the claim includes (Ann, 4 November 2026).
  The program compares with the current moment, time of day included: it moves Ann's
  occurrence to 2027 and returns Bob only. And not every birthday gets an occurrence:
  Eve is born on 29 February 2000, 2026 has no 29 February, \<open>replace\<close> raises
  \<open>ValueError\<close>, and the handler reports "Invalid date format" for a text that
  \<open>add_birthday\<close> accepted; even with a window of 366 days there is no pair for Eve.
\<close>

theorem upcoming_birthdays_today_and_leap_day:
  "upcoming_birthdays ex_now ex_book 7 = ([], Inr [(py ''Bob'', midnight 2026 11 5)])
   \<and> upcoming_birthdays ex_now ex_book_eve 366 = ([Error_processing (py ''Eve'')], Inr [])"
  by (simp add: upcoming_birthdays_def ex_book_def ex_book_eve_def dict_values_def ex_ann_def
      ex_bob_def ex_eve_def birthdays_try_def occurrence_ann occurrence_bob occurrence_eve
      sub_days_ann sub_days_bob get_value_def)

theorem upcoming_birthdays_today_and_leap_day_witness:
  "fst (upcoming_birthdays ex_now ex_book_eve 366) = [Error_processing (py ''Eve'')]"
  using upcoming_birthdays_today_and_leap_day by simp

text \<open>What the \<open>try\<close> block yields, and the loop over records that all have a name.\<close>

lemma birthdays_try_Some:
  "birthdays_try now days r b = Inr (Some p) \<longleftrightarrow>
     (\<exists>occ n. occurrence now b = Inr occ \<and> 0 \<le> sub_days occ now \<and> sub_days occ now \<le> days
        \<and> name r = Some n \<and> p = (n, occ))"
  by (auto simp: birthdays_try_def get_value_def Let_def split: sum.splits option.splits)

lemma birthdays_try_named:
  "name r \<noteq> None \<Longrightarrow> birthdays_try now days r b = Inl e \<Longrightarrow> occurrence now b = Inl e"
  by (auto simp: birthdays_try_def get_value_def Let_def split: sum.splits option.splits if_splits)

lemma occurrence_ValueError: "occurrence now b = Inl e \<Longrightarrow> e = ValueError"
  by (auto simp: occurrence_def replace_year_def datetime_new_def
      dest: strptime_ValueError split: sum.splits if_splits)

lemma birthdays_loop_named:
  assumes "\<forall>r \<in> set rs. name r \<noteq> None"
  shows "\<exists>out' ups'. birthdays_loop now days rs ups out = (out', Inr ups')
           \<and> set ups' = set ups \<union> {p. \<exists>r \<in> set rs. \<exists>b. birthday r = Some b
                                        \<and> birthdays_try now days r b = Inr (Some p)}
           \<and> set out' = set out \<union> {Error_processing n | n. \<exists>r \<in> set rs. \<exists>b.
                                        birthday r = Some b \<and> name r = Some n
                                        \<and> occurrence now b = Inl ValueError}"
  using assms
proof (induction rs arbitrary: ups out)
  case Nil
  then show ?case by simp
next
  case (Cons r rs)
  from Cons.prems obtain n where n: "name r = Some n" by auto
  from Cons.prems have rest: "\<forall>r \<in> set rs. name r \<noteq> None" by simp
  show ?case
  proof (cases "birthday r")
    case None
    with Cons.IH [OF rest, of ups out] show ?thesis by auto
  next
    case (Some b)
    show ?thesis
    proof (cases "birthdays_try now days r b")
      case (Inl e)
      with n have o: "occurrence now b = Inl e" by (intro birthdays_try_named [of r]) simp_all
      then have e: "e = ValueError" by (rule occurrence_ValueError)
      from Cons.IH [OF rest, of ups "out @ [Error_processing n]"] Some Inl n o e
      show ?thesis by (auto simp: get_value_def)
    next
      case (Inr q)
      show ?thesis
      proof (cases q)
        case None
        with Inr have "occurrence now b \<noteq> Inl ValueError"
          by (auto simp: birthdays_try_def Let_def split: sum.splits)
        with Cons.IH [OF rest, of ups out] Some Inr None show ?thesis by auto
      next
        case (Some p)
        with Inr have "occurrence now b \<noteq> Inl ValueError"
          by (auto simp: birthdays_try_def Let_def split: sum.splits)
        with Cons.IH [OF rest, of "ups @ [p]" out] \<open>birthday r = Some b\<close> Inr Some
        show ?thesis by auto
      qed
    qed
  qed
qed


text \<open>
  What the query returns in general, in the program's own terms (the current moment
  \<open>now\<close>, not the date): in an address book whose records all have a name, a contact
  whose birthday text parses and whose occurrence \<open>occ\<close> can be built is in the result
  exactly when 0 \<le> (occ - now).days \<le> days; a contact whose occurrence cannot be
  built is reported.
\<close>

lemma upcoming_birthdays_membership:
  assumes names: "\<forall>r \<in> set (dict_values (data book)). name r \<noteq> None"
      and r: "r \<in> set (dict_values (data book))" "birthday r = Some b" "name r = Some n"
      and occ: "occurrence now b = Inr occ"
  shows "\<exists>out ups. upcoming_birthdays now book days = (out, Inr ups)
           \<and> ((n, occ) \<in> set ups \<longleftrightarrow> 0 \<le> sub_days occ now \<and> sub_days occ now \<le> days)"
proof -
  from birthdays_loop_named [OF names, of now days "[]" "[]"]
  obtain out ups where loop: "birthdays_loop now days (dict_values (data book)) [] [] = (out, Inr ups)"
    and ups: "set ups = {p. \<exists>r \<in> set (dict_values (data book)). \<exists>b. birthday r = Some b
                              \<and> birthdays_try now days r b = Inr (Some p)}"
    by auto
  have "(n, occ) \<in> set ups \<longleftrightarrow> 0 \<le> sub_days occ now \<and> sub_days occ now \<le> days"
  proof
    assume "(n, occ) \<in> set ups"
    with ups obtain r' b' where "birthdays_try now days r' b' = Inr (Some (n, occ))"
      by auto
    then show "0 \<le> sub_days occ now \<and> sub_days occ now \<le> days"
      by (auto simp: birthdays_try_Some)
  next
    assume "0 \<le> sub_days occ now \<and> sub_days occ now \<le> days"
    with occ r(3) have "birthdays_try now days r b = Inr (Some (n, occ))"
      by (simp add: birthdays_try_Some)
    with r(1,2) ups show "(n, occ) \<in> set ups" by auto
  qed
  with loop show ?thesis
    by (simp add: upcoming_birthdays_def)
qed

lemma upcoming_birthdays_skipped:
  assumes names: "\<forall>r \<in> set (dict_values (data book)). name r \<noteq> None"
      and r: "r \<in> set (dict_values (data book))" "birthday r = Some b" "name r = Some n"
      and failed: "occurrence now b = Inl ValueError"
  shows "\<exists>out ups. upcoming_birthdays now book days = (out, Inr ups)
           \<and> Error_processing n \<in> set out"
proof -
  from birthdays_loop_named [OF names, of now days "[]" "[]"]
  obtain out ups where loop: "birthdays_loop now days (dict_values (data book)) [] [] = (out, Inr ups)"
    and out: "set out = {Error_processing n | n. \<exists>r \<in> set (dict_values (data book)). \<exists>b.
                            birthday r = Some b \<and> name r = Some n
                            \<and> occurrence now b = Inl ValueError}"
    by auto
  from out r failed have "Error_processing n \<in> set out" by auto
  with loop show ?thesis by (simp add: upcoming_birthdays_def)
qed

theorem upcoming_birthdays_window_zero_witness:
  "fst (upcoming_birthdays ex_now ex_book 0) = []"
  using upcoming_birthdays_window_zero by simp

end
